theory Spec2Isabelle
  imports Main "HOL-Library.Sublist" "HOL-Library.AList"
begin

section \<open>Data model of \<^verbatim>\<open>setup.py\<close>\<close>

text \<open>
  Python \<^verbatim>\<open>str\<close> and \<^verbatim>\<open>bytes\<close> values are both modelled as \<^typ>\<open>string\<close>
  (a list of 8-bit characters); a \<^verbatim>\<open>str\<close> is held in its UTF-8 encoding, so that
  \<^verbatim>\<open>bytes.decode("utf-8")\<close> is the identity on well-formed input and raises otherwise.
\<close>

datatype oserror = FileNotFound | PermissionDenied | OtherOSError

datatype error =
    RuntimeError string
  | CalledProcessError int "string list"
  | OSError oserror
  | UnicodeDecodeError

text \<open>
  Everything the script does to the outside world is an event: the two entry points of
  \<^verbatim>\<open>subprocess\<close> that it uses, \<^verbatim>\<open>os.path.exists\<close> and \<^verbatim>\<open>os.makedirs\<close>.
  \<open>Check_call\<close> carries the argument vector, the working directory and the environment
  given to the child (\<open>None\<close>: inherited).
\<close>

datatype event =
    Check_output "string list"
  | Check_call "string list" string "(string \<times> string) list option"
  | Path_exists string
  | Makedirs string bool

datatype outcome =
    Exited int string
  | Spawn_failed oserror

text \<open>
  The operating system is an oracle that answers each event given the events that came
  before it. \<open>proc\<close> answers a subprocess invocation with its exit code and captured
  standard output, or with the \<^verbatim>\<open>OSError\<close> that prevented it from starting.
\<close>

record world =
  proc :: "event list \<Rightarrow> event \<Rightarrow> outcome"
  path_exists :: "event list \<Rightarrow> string \<Rightarrow> bool"
  makedirs :: "event list \<Rightarrow> string \<Rightarrow> bool \<Rightarrow> oserror option"

text \<open>
  The facts of the host that the script reads: \<^verbatim>\<open>platform.system()\<close>, \<^verbatim>\<open>sys.maxsize\<close>,
  \<^verbatim>\<open>sys.executable\<close>, \<^verbatim>\<open>os.getcwd()\<close>, \<^verbatim>\<open>os.environ\<close>. The path functions of the standard
  library are parameters: \<open>path_join\<close> is \<^verbatim>\<open>os.path.join\<close>, and \<open>ext_dir n\<close> is
  \<^verbatim>\<open>os.path.abspath(os.path.dirname(self.get_ext_fullpath(n)))\<close>.
\<close>

record host =
  platform_system :: string
  sys_maxsize :: int
  sys_executable :: string
  getcwd :: string
  environ :: "(string \<times> string) list"
  path_join :: "string \<Rightarrow> string \<Rightarrow> string"
  ext_dir :: "string \<Rightarrow> string"

record extension =
  name :: string
  sourcedir :: string

text \<open>The fields of the \<^verbatim>\<open>CMakeBuild\<close> command object that the methods read.\<close>

record cmake_build =
  extensions :: "extension list"
  debug :: bool
  opt_flags :: "string option"
  build_temp :: string
  version :: string

type_synonym 'a io = "event list \<Rightarrow> (error + 'a) \<times> event list"

section \<open>Library functions\<close>

text \<open>\<^verbatim>\<open>os.getenv(key)\<close> and \<^verbatim>\<open>os.getenv(key, default)\<close>.\<close>

definition getenv :: "host \<Rightarrow> string \<Rightarrow> string option" where
  "getenv h k = map_of (environ h) k"

definition getenv_default :: "host \<Rightarrow> string \<Rightarrow> string option \<Rightarrow> string option" where
  "getenv_default h k d = (case map_of (environ h) k of Some v \<Rightarrow> Some v | None \<Rightarrow> d)"

text \<open>Truth value of an optional string: \<^verbatim>\<open>None\<close> and \<^verbatim>\<open>""\<close> are false.\<close>

definition truthy :: "string option \<Rightarrow> bool" where
  "truthy v = (case v of None \<Rightarrow> False | Some s \<Rightarrow> s \<noteq> [])"

text \<open>\<^verbatim>\<open>sep.join(xs)\<close>.\<close>

fun join :: "string \<Rightarrow> string list \<Rightarrow> string" where
  "join sep [] = []"
| "join sep [x] = x"
| "join sep (x # y # ys) = x @ sep @ join sep (y # ys)"

text \<open>\<^verbatim>\<open>str.upper()\<close>, on ASCII letters (it is applied to \<^verbatim>\<open>"Debug"\<close> and \<^verbatim>\<open>"Release"\<close> only).\<close>

definition upper_char :: "char \<Rightarrow> char" where
  "upper_char c =
     (case map_of (zip ''abcdefghijklmnopqrstuvwxyz'' ''ABCDEFGHIJKLMNOPQRSTUVWXYZ'') c of
        Some u \<Rightarrow> u
      | None \<Rightarrow> c)"

definition upper :: "string \<Rightarrow> string" where
  "upper s = map upper_char s"

text \<open>\<^verbatim>\<open>bytes.strip()\<close>: removes leading and trailing ASCII whitespace.\<close>

definition is_space :: "char \<Rightarrow> bool" where
  "is_space c = (of_char c \<in> {32::nat, 9, 10, 13, 11, 12})"

definition strip :: "string \<Rightarrow> string" where
  "strip s = rev (dropWhile is_space (rev (dropWhile is_space s)))"

text \<open>
  \<^verbatim>\<open>bytes.decode("utf-8")\<close>: the well-formed byte sequences of UTF-8 (no overlong forms,
  no surrogates, nothing above U+10FFFF); anything else raises \<^verbatim>\<open>UnicodeDecodeError\<close>.
\<close>

definition cont :: "nat \<Rightarrow> bool" where
  "cont b = (128 \<le> b \<and> b \<le> 191)"

fun utf8_ok :: "nat list \<Rightarrow> bool" where
  "utf8_ok [] = True"
| "utf8_ok (b # bs) =
     (if b < 128 then utf8_ok bs
      else if 194 \<le> b \<and> b \<le> 223 then
        (case bs of c # r \<Rightarrow> cont c \<and> utf8_ok r | _ \<Rightarrow> False)
      else if 224 \<le> b \<and> b \<le> 239 then
        (case bs of c # d # r \<Rightarrow>
           (if b = 224 then 160 \<le> c \<and> c \<le> 191
            else if b = 237 then 128 \<le> c \<and> c \<le> 159
            else cont c) \<and> cont d \<and> utf8_ok r
         | _ \<Rightarrow> False)
      else if 240 \<le> b \<and> b \<le> 244 then
        (case bs of c # d # e # r \<Rightarrow>
           (if b = 240 then 144 \<le> c \<and> c \<le> 191
            else if b = 244 then 128 \<le> c \<and> c \<le> 143
            else cont c) \<and> cont d \<and> cont e \<and> utf8_ok r
         | _ \<Rightarrow> False)
      else False)"

definition decode_utf8 :: "string \<Rightarrow> error + string" where
  "decode_utf8 bs = (if utf8_ok (map of_char bs) then Inr bs else Inl UnicodeDecodeError)"

text \<open>
  \<^verbatim>\<open>subprocess.check_output(argv)\<close>: the captured output when the child exits with 0,
  \<^verbatim>\<open>CalledProcessError\<close> when it exits with another code, the \<^verbatim>\<open>OSError\<close> when it
  could not be started.
\<close>

definition check_output :: "world \<Rightarrow> string list \<Rightarrow> string io" where
  "check_output w argv t =
     (let ev = Check_output argv in
      case proc w t ev of
        Spawn_failed oe \<Rightarrow> (Inl (OSError oe), t @ [ev])
      | Exited c out \<Rightarrow>
          if c = 0 then (Inr out, t @ [ev]) else (Inl (CalledProcessError c argv), t @ [ev]))"

text \<open>\<^verbatim>\<open>subprocess.check_call(argv, cwd=..., env=...)\<close>.\<close>

definition check_call ::
  "world \<Rightarrow> string list \<Rightarrow> string \<Rightarrow> (string \<times> string) list option \<Rightarrow> unit io" where
  "check_call w argv cwd env t =
     (let ev = Check_call argv cwd env in
      case proc w t ev of
        Spawn_failed oe \<Rightarrow> (Inl (OSError oe), t @ [ev])
      | Exited c out \<Rightarrow>
          if c = 0 then (Inr (), t @ [ev]) else (Inl (CalledProcessError c argv), t @ [ev]))"

text \<open>\<^verbatim>\<open>os.path.exists(p)\<close> and \<^verbatim>\<open>os.makedirs(p, exist_ok=b)\<close>.\<close>

definition os_path_exists :: "world \<Rightarrow> string \<Rightarrow> bool io" where
  "os_path_exists w p t = (Inr (path_exists w t p), t @ [Path_exists p])"

definition os_makedirs :: "world \<Rightarrow> string \<Rightarrow> bool \<Rightarrow> unit io" where
  "os_makedirs w p exist_ok t =
     (case makedirs w t p exist_ok of
        Some oe \<Rightarrow> (Inl (OSError oe), t @ [Makedirs p exist_ok])
      | None \<Rightarrow> (Inr (), t @ [Makedirs p exist_ok]))"

section \<open>The CPU-count probe\<close>

definition probe_command :: "string \<Rightarrow> string list" where
  "probe_command platform_name =
     (if platform_name = ''Linux'' then [''nproc'']
      else if platform_name = ''Darwin'' then [''sysctl'', ''-n'', ''hw.ncpu'']
      else [''''])"

text \<open>
  \<^verbatim>\<open>_get_n_cpus\<close>: the \<^verbatim>\<open>try\<close> block covers the invocation, \<^verbatim>\<open>strip\<close> and \<^verbatim>\<open>decode\<close>;
  the only handler is for \<^verbatim>\<open>PermissionError\<close>.
\<close>

definition get_n_cpus :: "world \<Rightarrow> string \<Rightarrow> string io" where
  "get_n_cpus w platform_name t =
     (case check_output w (probe_command platform_name) t of
        (Inl e, t') \<Rightarrow>
          (if e = OSError PermissionDenied then (Inr '''', t') else (Inl e, t'))
      | (Inr out, t') \<Rightarrow>
          (case decode_utf8 (strip out) of
             Inl e \<Rightarrow> (Inl e, t')
           | Inr n_cpus \<Rightarrow> (Inr n_cpus, t')))"

section \<open>Argument generation\<close>

text \<open>
  \<^verbatim>\<open>CMakeBuild._generate_args\<close>. \<^verbatim>\<open>os.getenv("C_COMPILER", "gcc")\<close> is a lookup with
  a default, and the test \<^verbatim>\<open>gcc is None or gxx is None\<close> is kept as the source has it.
  Returns the pair \<open>(build_args, cmake_args)\<close>.
\<close>

definition cfg_name :: "cmake_build \<Rightarrow> string" where
  "cfg_name self = (if debug self then ''Debug'' else ''Release'')"

definition generate_args ::
  "world \<Rightarrow> host \<Rightarrow> cmake_build \<Rightarrow> extension \<Rightarrow> (string list \<times> string list) io" where
  "generate_args w h self ext t =
     (let archive_dir = path_join h (getcwd h) ''lib'';
          extdir = ext_dir h (name ext);
          bindir = path_join h (getcwd h) ''bin'';
          cmake_args =
            [''-DCMAKE_ARCHIVE_OUTPUT_DIRECTORY='' @ archive_dir,
             ''-DCMAKE_LIBRARY_OUTPUT_DIRECTORY='' @ extdir,
             ''-DCMAKE_RUNTIME_OUTPUT_DIRECTORY='' @ bindir,
             ''-DPYTHON_EXECUTABLE='' @ sys_executable h,
             ''-DPYTHON_SETUP_FLAG:STR=Yes'',
             ''-DUSE_GPU:STR=No''];
          cfg = cfg_name self;
          build_args = [''--config'', cfg]
      in
      if platform_system h = ''Windows'' then
        (let cmake_args1 = cmake_args @
               [''-DCMAKE_LIBRARY_OUTPUT_DIRECTORY_'' @ upper cfg @ ''='' @ extdir,
                ''-DCMAKE_RUNTIME_OUTPUT_DIRECTORY_'' @ upper cfg @ ''='' @ extdir];
             cmake_args2 =
               (if sys_maxsize h > 2 ^ 32 then cmake_args1 @ [''-A'', ''x64''] else cmake_args1)
         in (Inr (build_args @ [''--'', ''/m''], cmake_args2), t))
      else
        (case (getenv_default h ''C_COMPILER'' (Some ''gcc''),
               getenv_default h ''CXX_COMPILER'' (Some ''g++'')) of
           (Some gcc, Some gxx) \<Rightarrow>
             (let cmake_args1 = cmake_args @
                    [''-DCMAKE_C_COMPILER='' @ gcc,
                     ''-DCMAKE_CXX_COMPILER='' @ gxx,
                     ''-DCMAKE_BUILD_TYPE='' @ cfg]
              in case get_n_cpus w (platform_system h) t of
                   (Inl e, t') \<Rightarrow> (Inl e, t')
                 | (Inr n_cpus, t') \<Rightarrow>
                     (Inr (build_args @ [''--'', ''-j'' @ n_cpus], cmake_args1), t'))
         | _ \<Rightarrow>
             (Inl (RuntimeError
                (''gcc/g++ must be installed to build the following extensions: ''
                 @ join '', '' (map name (extensions self)))), t)))"

section \<open>Building one extension\<close>

text \<open>
  Lines 68 to 81 of \<^verbatim>\<open>build_extension\<close>: the flags appended to \<open>cmake_args\<close> from
  the \<^verbatim>\<open>--opt-flags\<close> option and from the environment.
\<close>

definition resolve_opt_flags :: "host \<Rightarrow> cmake_build \<Rightarrow> string option" where
  "resolve_opt_flags h self =
     (case opt_flags self of
        Some v \<Rightarrow> Some v
      | None \<Rightarrow>
          if truthy (getenv h ''QULACS_OPT_FLAGS'') then getenv h ''QULACS_OPT_FLAGS''
          else None)"

definition option_flags :: "host \<Rightarrow> cmake_build \<Rightarrow> string list \<Rightarrow> string list" where
  "option_flags h self cmake_args =
     (let cmake_args1 =
            (case resolve_opt_flags h self of
               Some v \<Rightarrow> if v \<noteq> [] then cmake_args @ [''-DOPT_FLAGS='' @ v] else cmake_args
             | None \<Rightarrow> cmake_args);
          cmake_args2 =
            (case getenv h ''USE_GPU'' of
               Some v \<Rightarrow> if v \<noteq> [] then cmake_args1 @ [''-DUSE_GPU:STR='' @ v] else cmake_args1
             | None \<Rightarrow> cmake_args1)
      in case getenv h ''USE_OMP'' of
           Some v \<Rightarrow> if v \<noteq> [] then cmake_args2 @ [''-DUSE_OMP:STR='' @ v] else cmake_args2
         | None \<Rightarrow> cmake_args2)"

text \<open>
  The environment of the configure step: a copy of \<^verbatim>\<open>os.environ\<close> whose \<^verbatim>\<open>CXXFLAGS\<close>
  is the old value (or \<^verbatim>\<open>""\<close>), a space and the \<^verbatim>\<open>VERSION_INFO\<close> definition, whose value
  stands between two backslash-quote pairs.
\<close>

definition child_env :: "host \<Rightarrow> cmake_build \<Rightarrow> (string \<times> string) list" where
  "child_env h self =
     AList.update ''CXXFLAGS''
       ((case map_of (environ h) ''CXXFLAGS'' of Some v \<Rightarrow> v | None \<Rightarrow> [])
        @ '' -DVERSION_INFO='' @ [CHR 0x5C, CHR 0x22] @ version self @ [CHR 0x5C, CHR 0x22])
       (environ h)"

definition configure_argv :: "extension \<Rightarrow> string list \<Rightarrow> string list" where
  "configure_argv ext cmake_args = [''cmake'', sourcedir ext] @ cmake_args"

definition build_argv :: "string list \<Rightarrow> string list" where
  "build_argv build_args = [''cmake'', ''--build'', ''.'', ''--target'', ''python''] @ build_args"

text \<open>
  The directories: \<^verbatim>\<open>build_temp\<close> is created when it does not exist, and
  \<^verbatim>\<open>build\<close> under the working directory with \<^verbatim>\<open>exist_ok=True\<close>.
\<close>

definition make_build_dirs :: "world \<Rightarrow> host \<Rightarrow> cmake_build \<Rightarrow> string io" where
  "make_build_dirs w h self t =
     (case os_path_exists w (build_temp self) t of
        (Inl e, t1) \<Rightarrow> (Inl e, t1)
      | (Inr ex, t1) \<Rightarrow>
          (case (if \<not> ex then os_makedirs w (build_temp self) False t1 else (Inr (), t1)) of
             (Inl e, t2) \<Rightarrow> (Inl e, t2)
           | (Inr u, t2) \<Rightarrow>
               (let build_dir = path_join h (getcwd h) ''build'' in
                case os_makedirs w build_dir True t2 of
                  (Inl e, t3) \<Rightarrow> (Inl e, t3)
                | (Inr u', t3) \<Rightarrow> (Inr build_dir, t3))))"

text \<open>\<^verbatim>\<open>CMakeBuild.build_extension\<close>: arguments, directories, configure step, build step.\<close>

definition build_extension :: "world \<Rightarrow> host \<Rightarrow> cmake_build \<Rightarrow> extension \<Rightarrow> unit io" where
  "build_extension w h self ext t =
     (case generate_args w h self ext t of
        (Inl e, t1) \<Rightarrow> (Inl e, t1)
      | (Inr (build_args, cmake_args0), t1) \<Rightarrow>
          (let cmake_args = option_flags h self cmake_args0;
               env = child_env h self
           in case make_build_dirs w h self t1 of
                (Inl e, t2) \<Rightarrow> (Inl e, t2)
              | (Inr build_dir, t2) \<Rightarrow>
                  (case check_call w (configure_argv ext cmake_args) build_dir (Some env) t2 of
                     (Inl e, t3) \<Rightarrow> (Inl e, t3)
                   | (Inr u, t3) \<Rightarrow> check_call w (build_argv build_args) build_dir None t3)))"

section \<open>The orchestrator\<close>

text \<open>The loop of \<^verbatim>\<open>run\<close> over \<^verbatim>\<open>self.extensions\<close>: the first exception ends it.\<close>

fun build_extensions ::
  "world \<Rightarrow> host \<Rightarrow> cmake_build \<Rightarrow> extension list \<Rightarrow> unit io" where
  "build_extensions w h self [] t = (Inr (), t)"
| "build_extensions w h self (ext # exts) t =
     (case build_extension w h self ext t of
        (Inl e, t') \<Rightarrow> (Inl e, t')
      | (Inr u, t') \<Rightarrow> build_extensions w h self exts t')"

text \<open>
  \<^verbatim>\<open>CMakeBuild.run\<close>: the handler around \<^verbatim>\<open>cmake --version\<close> is for \<^verbatim>\<open>OSError\<close>
  (of which \<^verbatim>\<open>FileNotFoundError\<close> and \<^verbatim>\<open>PermissionError\<close> are subclasses); a
  \<^verbatim>\<open>CalledProcessError\<close> is not one and passes through.
\<close>

definition run :: "world \<Rightarrow> host \<Rightarrow> cmake_build \<Rightarrow> unit io" where
  "run w h self t =
     (case check_output w [''cmake'', ''--version''] t of
        (Inl (OSError oe), t') \<Rightarrow>
          (Inl (RuntimeError
             (''CMake must be installed to build the following extensions: ''
              @ join '', '' (map name (extensions self)))), t')
      | (Inl e, t') \<Rightarrow> (Inl e, t')
      | (Inr out, t') \<Rightarrow> build_extensions w h self (extensions self) t')"

section \<open>Notions used to state the properties\<close>

text \<open>
  The configuration key of an argument: for a definition \<^verbatim>\<open>-DKEY=value\<close> or
  \<^verbatim>\<open>-DKEY:TYPE=value\<close> it is \<^verbatim>\<open>KEY\<close>; other arguments have none.
\<close>

definition flag_key :: "string \<Rightarrow> string option" where
  "flag_key a =
     (if take 2 a = ''-D''
      then Some (takeWhile (\<lambda>c. c \<noteq> CHR '':'' \<and> c \<noteq> CHR ''='') (drop 2 a))
      else None)"

definition flags_for :: "string \<Rightarrow> string list \<Rightarrow> string list" where
  "flags_for k args = filter (\<lambda>a. flag_key a = Some k) args"

text \<open>No two arguments define the same key with different values.\<close>

definition conflict_free :: "string list \<Rightarrow> bool" where
  "conflict_free args =
     list_all (\<lambda>a. list_all (\<lambda>b. flag_key a = None \<or> flag_key a \<noteq> flag_key b \<or> a = b) args) args"

text \<open>
  The arguments that \<open>build_extension\<close> hands to the configure step after
  \<^verbatim>\<open>cmake <sourcedir>\<close>, when argument generation returns.
\<close>

definition configure_args ::
  "world \<Rightarrow> host \<Rightarrow> cmake_build \<Rightarrow> extension \<Rightarrow> event list \<Rightarrow> string list option" where
  "configure_args w h self ext t =
     (case generate_args w h self ext t of
        (Inl e, t') \<Rightarrow> None
      | (Inr (build_args, cmake_args), t') \<Rightarrow> Some (option_flags h self cmake_args))"

text \<open>The value of \<^verbatim>\<open>os.getenv(k, d)\<close> for a string default \<open>d\<close>.\<close>

definition compiler :: "host \<Rightarrow> string \<Rightarrow> string \<Rightarrow> string" where
  "compiler h k d = (case map_of (environ h) k of Some v \<Rightarrow> v | None \<Rightarrow> d)"

text \<open>The \<^verbatim>\<open>check_call\<close> events of a trace: the configure and build steps.\<close>

fun is_check_call :: "event \<Rightarrow> bool" where
  "is_check_call (Check_call argv cwd env) = True"
| "is_check_call (Check_output argv) = False"
| "is_check_call (Path_exists p) = False"
| "is_check_call (Makedirs p b) = False"

text \<open>A decimal numeral of a positive integer.\<close>

definition is_digit :: "char \<Rightarrow> bool" where
  "is_digit c = (c \<in> set ''0123456789'')"

definition is_pos_int :: "string \<Rightarrow> bool" where
  "is_pos_int s = (s \<noteq> [] \<and> list_all is_digit s \<and> list_ex (\<lambda>c. c \<noteq> CHR ''0'') s)"

text \<open>What the probe is claimed to give: a positive integer or the absent value \<^verbatim>\<open>""\<close>.\<close>

definition probe_ok :: "error + string \<Rightarrow> bool" where
  "probe_ok r = (case r of Inl e \<Rightarrow> False | Inr s \<Rightarrow> s = [] \<or> is_pos_int s)"

section \<open>Concrete hosts and worlds\<close>

text \<open>
  A world in which every subprocess starts and exits with 0, the CPU-count utility
  printing \<^verbatim>\<open>8\<close> and a newline; no directory exists and every one can be created.
\<close>

definition good_world :: world where
  "good_world =
     \<lparr>proc = (\<lambda>t e. case e of Check_output argv \<Rightarrow> Exited 0 ''8\<newline>''
                            | _ \<Rightarrow> Exited 0 []),
      path_exists = (\<lambda>t p. False),
      makedirs = (\<lambda>t p b. None)\<rparr>"

text \<open>A world in which no program can be found.\<close>

definition bare_world :: world where
  "bare_world =
     \<lparr>proc = (\<lambda>t e. Spawn_failed FileNotFound),
      path_exists = (\<lambda>t p. False),
      makedirs = (\<lambda>t p b. None)\<rparr>"

text \<open>A world in which every program is denied.\<close>

definition denying_world :: world where
  "denying_world =
     \<lparr>proc = (\<lambda>t e. Spawn_failed PermissionDenied),
      path_exists = (\<lambda>t p. False),
      makedirs = (\<lambda>t p b. None)\<rparr>"

text \<open>A world in which the configure step exits with 2 and everything else with 0.\<close>

definition failing_configure_world :: world where
  "failing_configure_world =
     \<lparr>proc = (\<lambda>t e. case e of Check_output argv \<Rightarrow> Exited 0 ''8\<newline>''
                            | Check_call argv cwd env \<Rightarrow>
                                (if env = None then Exited 0 [] else Exited 2 [])
                            | _ \<Rightarrow> Exited 0 []),
      path_exists = (\<lambda>t p. False),
      makedirs = (\<lambda>t p b. None)\<rparr>"

definition some_host :: "string \<Rightarrow> (string \<times> string) list \<Rightarrow> host" where
  "some_host sys env =
     \<lparr>platform_system = sys, sys_maxsize = 2 ^ 63 - 1, sys_executable = ''/usr/bin/python3'',
      getcwd = ''/w'', environ = env, path_join = (\<lambda>a b. a @ ''/'' @ b),
      ext_dir = (\<lambda>n. ''/w/build/lib'')\<rparr>"

definition qulacs_core :: extension where
  "qulacs_core = \<lparr>name = ''qulacs_core'', sourcedir = ''/w''\<rparr>"

definition some_build :: "bool \<Rightarrow> string option \<Rightarrow> cmake_build" where
  "some_build dbg opt =
     \<lparr>extensions = [qulacs_core], debug = dbg, opt_flags = opt, build_temp = ''build/temp'',
      version = ''0.2.0''\<rparr>"

text \<open>
  The configure arguments on the Linux host of \<open>some_host\<close> with \<^verbatim>\<open>USE_GPU=Yes\<close> in the
  environment, no \<^verbatim>\<open>--opt-flags\<close> and a release build.
\<close>

definition gpu_example_args :: "string list" where
  "gpu_example_args =
     [''-DCMAKE_ARCHIVE_OUTPUT_DIRECTORY=/w/lib'',
      ''-DCMAKE_LIBRARY_OUTPUT_DIRECTORY=/w/build/lib'',
      ''-DCMAKE_RUNTIME_OUTPUT_DIRECTORY=/w/bin'',
      ''-DPYTHON_EXECUTABLE=/usr/bin/python3'',
      ''-DPYTHON_SETUP_FLAG:STR=Yes'',
      ''-DUSE_GPU:STR=No'',
      ''-DCMAKE_C_COMPILER=gcc'',
      ''-DCMAKE_CXX_COMPILER=g++'',
      ''-DCMAKE_BUILD_TYPE=Release'',
      ''-DUSE_GPU:STR=Yes'']"

text \<open>The same without the \<^verbatim>\<open>USE_GPU\<close> selector.\<close>

definition plain_example_args :: "string list" where
  "plain_example_args =
     [''-DCMAKE_ARCHIVE_OUTPUT_DIRECTORY=/w/lib'',
      ''-DCMAKE_LIBRARY_OUTPUT_DIRECTORY=/w/build/lib'',
      ''-DCMAKE_RUNTIME_OUTPUT_DIRECTORY=/w/bin'',
      ''-DPYTHON_EXECUTABLE=/usr/bin/python3'',
      ''-DPYTHON_SETUP_FLAG:STR=Yes'',
      ''-DUSE_GPU:STR=No'',
      ''-DCMAKE_C_COMPILER=gcc'',
      ''-DCMAKE_CXX_COMPILER=g++'',
      ''-DCMAKE_BUILD_TYPE=Release'']"

text \<open>The configure arguments of a debug build on the 64-bit Windows host of \<open>some_host\<close>.\<close>

definition windows_example_args :: "string list" where
  "windows_example_args =
     [''-DCMAKE_ARCHIVE_OUTPUT_DIRECTORY=/w/lib'',
      ''-DCMAKE_LIBRARY_OUTPUT_DIRECTORY=/w/build/lib'',
      ''-DCMAKE_RUNTIME_OUTPUT_DIRECTORY=/w/bin'',
      ''-DPYTHON_EXECUTABLE=/usr/bin/python3'',
      ''-DPYTHON_SETUP_FLAG:STR=Yes'',
      ''-DUSE_GPU:STR=No'',
      ''-DCMAKE_LIBRARY_OUTPUT_DIRECTORY_DEBUG=/w/build/lib'',
      ''-DCMAKE_RUNTIME_OUTPUT_DIRECTORY_DEBUG=/w/build/lib'',
      ''-A'',
      ''x64'']"

text \<open>A world in which every program starts and exits with 1.\<close>

definition nonzero_world :: world where
  "nonzero_world =
     \<lparr>proc = (\<lambda>t e. Exited 1 []),
      path_exists = (\<lambda>t p. False),
      makedirs = (\<lambda>t p b. None)\<rparr>"

text \<open>
  The configure arguments on the Linux host with an empty \<^verbatim>\<open>C_COMPILER\<close> in the
  environment.
\<close>

definition empty_compiler_example_args :: "string list" where
  "empty_compiler_example_args =
     [''-DCMAKE_ARCHIVE_OUTPUT_DIRECTORY=/w/lib'',
      ''-DCMAKE_LIBRARY_OUTPUT_DIRECTORY=/w/build/lib'',
      ''-DCMAKE_RUNTIME_OUTPUT_DIRECTORY=/w/bin'',
      ''-DPYTHON_EXECUTABLE=/usr/bin/python3'',
      ''-DPYTHON_SETUP_FLAG:STR=Yes'',
      ''-DUSE_GPU:STR=No'',
      ''-DCMAKE_C_COMPILER='',
      ''-DCMAKE_CXX_COMPILER=g++'',
      ''-DCMAKE_BUILD_TYPE=Release'']"

text \<open>The event of the configure step of \<open>build_extension\<close>, and that of the build step.\<close>

definition configure_event ::
  "host \<Rightarrow> cmake_build \<Rightarrow> extension \<Rightarrow> string list \<Rightarrow> string \<Rightarrow> event" where
  "configure_event h self ext cmake_args0 build_dir =
     Check_call (configure_argv ext (option_flags h self cmake_args0)) build_dir
       (Some (child_env h self))"

definition build_event :: "string list \<Rightarrow> string \<Rightarrow> event" where
  "build_event build_args build_dir = Check_call (build_argv build_args) build_dir None"

text \<open>A command object with two extension targets.\<close>

definition two_target_build :: cmake_build where
  "two_target_build =
     \<lparr>extensions = [qulacs_core, \<lparr>name = ''qulacs_extra'', sourcedir = ''/x''\<rparr>],
      debug = False, opt_flags = None, build_temp = ''build/temp'', version = ''0.2.0''\<rparr>"

text \<open>
  The strings that an exception carries: the message of a \<^verbatim>\<open>RuntimeError\<close>, the command
  of a \<^verbatim>\<open>CalledProcessError\<close>. A diagnostic names every target when each extension name
  occurs in one of them.
\<close>

definition error_texts :: "error \<Rightarrow> string list" where
  "error_texts e =
     (case e of
        RuntimeError m \<Rightarrow> [m]
      | CalledProcessError c argv \<Rightarrow> argv
      | OSError oe \<Rightarrow> []
      | UnicodeDecodeError \<Rightarrow> [])"

definition names_every_target :: "cmake_build \<Rightarrow> error \<Rightarrow> bool" where
  "names_every_target self e =
     list_all (\<lambda>x. list_ex (sublist (name x)) (error_texts e)) (extensions self)"

section \<open>Shape of the generated arguments\<close>

lemma flag_key_fixed:
  "flag_key (''-DCMAKE_ARCHIVE_OUTPUT_DIRECTORY='' @ x) = Some ''CMAKE_ARCHIVE_OUTPUT_DIRECTORY''"
  "flag_key (''-DCMAKE_LIBRARY_OUTPUT_DIRECTORY='' @ x) = Some ''CMAKE_LIBRARY_OUTPUT_DIRECTORY''"
  "flag_key (''-DCMAKE_RUNTIME_OUTPUT_DIRECTORY='' @ x) = Some ''CMAKE_RUNTIME_OUTPUT_DIRECTORY''"
  "flag_key (''-DPYTHON_EXECUTABLE='' @ x) = Some ''PYTHON_EXECUTABLE''"
  "flag_key ''-DPYTHON_SETUP_FLAG:STR=Yes'' = Some ''PYTHON_SETUP_FLAG''"
  "flag_key ''-DUSE_GPU:STR=No'' = Some ''USE_GPU''"
  "flag_key (''-DCMAKE_LIBRARY_OUTPUT_DIRECTORY_'' @ ''DEBUG'' @ ''='' @ x) = Some ''CMAKE_LIBRARY_OUTPUT_DIRECTORY_DEBUG''"
  "flag_key (''-DCMAKE_RUNTIME_OUTPUT_DIRECTORY_'' @ ''DEBUG'' @ ''='' @ x) = Some ''CMAKE_RUNTIME_OUTPUT_DIRECTORY_DEBUG''"
  "flag_key (''-DCMAKE_LIBRARY_OUTPUT_DIRECTORY_'' @ ''RELEASE'' @ ''='' @ x) = Some ''CMAKE_LIBRARY_OUTPUT_DIRECTORY_RELEASE''"
  "flag_key (''-DCMAKE_RUNTIME_OUTPUT_DIRECTORY_'' @ ''RELEASE'' @ ''='' @ x) = Some ''CMAKE_RUNTIME_OUTPUT_DIRECTORY_RELEASE''"
  "flag_key ''-A'' = None"
  "flag_key ''x64'' = None"
  "flag_key (''-DCMAKE_C_COMPILER='' @ x) = Some ''CMAKE_C_COMPILER''"
  "flag_key (''-DCMAKE_CXX_COMPILER='' @ x) = Some ''CMAKE_CXX_COMPILER''"
  "flag_key (''-DCMAKE_BUILD_TYPE='' @ x) = Some ''CMAKE_BUILD_TYPE''"
  "flag_key (''-DOPT_FLAGS='' @ x) = Some ''OPT_FLAGS''"
  "flag_key (''-DUSE_GPU:STR='' @ x) = Some ''USE_GPU''"
  "flag_key (''-DUSE_OMP:STR='' @ x) = Some ''USE_OMP''"
  by (simp_all add: flag_key_def)

lemmas flag_key_norm = flag_key_fixed [unfolded append_Cons append_Nil]

lemma upper_cfg_name: "upper (cfg_name self) = (if debug self then ''DEBUG'' else ''RELEASE'')"
  by (simp add: upper_def upper_char_def cfg_name_def)


lemma option_flags_append: "option_flags h self c = c @ option_flags h self []"
  by (simp add: option_flags_def Let_def split: option.splits)

lemma keys_option_flags:
  "map flag_key (option_flags h self []) =
     (if truthy (resolve_opt_flags h self) then [Some ''OPT_FLAGS''] else [])
     @ (if truthy (getenv h ''USE_GPU'') then [Some ''USE_GPU''] else [])
     @ (if truthy (getenv h ''USE_OMP'') then [Some ''USE_OMP''] else [])"
  by (simp add: option_flags_def Let_def truthy_def flag_key_norm split: option.splits)


lemma getenv_default_Some: "getenv_default h k (Some d) = Some (compiler h k d)"
  by (simp add: getenv_default_def compiler_def split: option.splits)

lemma generate_args_windows:
  assumes "platform_system h = ''Windows''"
  shows "generate_args w h self ext t =
    (Inr ([''--config'', cfg_name self, ''--'', ''/m''],
          [''-DCMAKE_ARCHIVE_OUTPUT_DIRECTORY='' @ path_join h (getcwd h) ''lib'',
           ''-DCMAKE_LIBRARY_OUTPUT_DIRECTORY='' @ ext_dir h (name ext),
           ''-DCMAKE_RUNTIME_OUTPUT_DIRECTORY='' @ path_join h (getcwd h) ''bin'',
           ''-DPYTHON_EXECUTABLE='' @ sys_executable h,
           ''-DPYTHON_SETUP_FLAG:STR=Yes'',
           ''-DUSE_GPU:STR=No'',
           ''-DCMAKE_LIBRARY_OUTPUT_DIRECTORY_'' @ upper (cfg_name self) @ ''='' @ ext_dir h (name ext),
           ''-DCMAKE_RUNTIME_OUTPUT_DIRECTORY_'' @ upper (cfg_name self) @ ''='' @ ext_dir h (name ext)]
          @ (if sys_maxsize h > 2 ^ 32 then [''-A'', ''x64''] else [])), t)"
  using assms unfolding generate_args_def Let_def by simp

lemma generate_args_posix:
  assumes "platform_system h \<noteq> ''Windows''"
  shows "generate_args w h self ext t =
    (case get_n_cpus w (platform_system h) t of
       (Inl e, t') \<Rightarrow> (Inl e, t')
     | (Inr n_cpus, t') \<Rightarrow>
        (Inr ([''--config'', cfg_name self, ''--'', ''-j'' @ n_cpus],
          [''-DCMAKE_ARCHIVE_OUTPUT_DIRECTORY='' @ path_join h (getcwd h) ''lib'',
           ''-DCMAKE_LIBRARY_OUTPUT_DIRECTORY='' @ ext_dir h (name ext),
           ''-DCMAKE_RUNTIME_OUTPUT_DIRECTORY='' @ path_join h (getcwd h) ''bin'',
           ''-DPYTHON_EXECUTABLE='' @ sys_executable h,
           ''-DPYTHON_SETUP_FLAG:STR=Yes'',
           ''-DUSE_GPU:STR=No'',
           ''-DCMAKE_C_COMPILER='' @ compiler h ''C_COMPILER'' ''gcc'',
           ''-DCMAKE_CXX_COMPILER='' @ compiler h ''CXX_COMPILER'' ''g++'',
           ''-DCMAKE_BUILD_TYPE='' @ cfg_name self]), t'))"
  using assms unfolding generate_args_def Let_def getenv_default_Some
  by (simp split: prod.splits sum.splits)


lemma length_flags_for: "length (flags_for k args) = count_list (map flag_key args) (Some k)"
  by (induction args) (simp_all add: flags_for_def)

lemma configure_args_SomeD:
  assumes "configure_args w h self ext t = Some args"
  shows "\<exists>b c t'. generate_args w h self ext t = (Inr (b, c), t') \<and>
           args = c @ option_flags h self []"
proof (cases "generate_args w h self ext t")
  case (Pair r t')
  show ?thesis
  proof (cases r)
    case (Inl e)
    with Pair assms show ?thesis by (simp add: configure_args_def)
  next
    case (Inr bc)
    obtain b c where bc: "bc = (b, c)" by (cases bc)
    from Pair Inr bc assms have "args = option_flags h self c"
      by (simp add: configure_args_def)
    then have "args = c @ option_flags h self []"
      by (subst (asm) option_flags_append)
    with Pair Inr bc show ?thesis by blast
  qed
qed

lemma keys_generate_args:
  assumes "generate_args w h self ext t = (Inr (b, c), t')"
  shows "map flag_key c =
     [Some ''CMAKE_ARCHIVE_OUTPUT_DIRECTORY'', Some ''CMAKE_LIBRARY_OUTPUT_DIRECTORY'',
      Some ''CMAKE_RUNTIME_OUTPUT_DIRECTORY'', Some ''PYTHON_EXECUTABLE'',
      Some ''PYTHON_SETUP_FLAG'', Some ''USE_GPU'']
     @ (if platform_system h = ''Windows''
        then [Some (''CMAKE_LIBRARY_OUTPUT_DIRECTORY_'' @ upper (cfg_name self)),
              Some (''CMAKE_RUNTIME_OUTPUT_DIRECTORY_'' @ upper (cfg_name self))]
             @ (if sys_maxsize h > 2 ^ 32 then [None, None] else [])
        else [Some ''CMAKE_C_COMPILER'', Some ''CMAKE_CXX_COMPILER'', Some ''CMAKE_BUILD_TYPE''])"
proof (cases "platform_system h = ''Windows''")
  case True
  from assms have c: "c =
          [''-DCMAKE_ARCHIVE_OUTPUT_DIRECTORY='' @ path_join h (getcwd h) ''lib'',
           ''-DCMAKE_LIBRARY_OUTPUT_DIRECTORY='' @ ext_dir h (name ext),
           ''-DCMAKE_RUNTIME_OUTPUT_DIRECTORY='' @ path_join h (getcwd h) ''bin'',
           ''-DPYTHON_EXECUTABLE='' @ sys_executable h,
           ''-DPYTHON_SETUP_FLAG:STR=Yes'',
           ''-DUSE_GPU:STR=No'',
           ''-DCMAKE_LIBRARY_OUTPUT_DIRECTORY_'' @ upper (cfg_name self) @ ''='' @ ext_dir h (name ext),
           ''-DCMAKE_RUNTIME_OUTPUT_DIRECTORY_'' @ upper (cfg_name self) @ ''='' @ ext_dir h (name ext)]
          @ (if sys_maxsize h > 2 ^ 32 then [''-A'', ''x64''] else [])"
    unfolding generate_args_windows [OF True] by simp
  show ?thesis
    unfolding c using True
    by (cases "debug self") (simp_all add: upper_cfg_name flag_key_norm)
next
  case False
  from assms obtain n where c: "c =
          [''-DCMAKE_ARCHIVE_OUTPUT_DIRECTORY='' @ path_join h (getcwd h) ''lib'',
           ''-DCMAKE_LIBRARY_OUTPUT_DIRECTORY='' @ ext_dir h (name ext),
           ''-DCMAKE_RUNTIME_OUTPUT_DIRECTORY='' @ path_join h (getcwd h) ''bin'',
           ''-DPYTHON_EXECUTABLE='' @ sys_executable h,
           ''-DPYTHON_SETUP_FLAG:STR=Yes'',
           ''-DUSE_GPU:STR=No'',
           ''-DCMAKE_C_COMPILER='' @ compiler h ''C_COMPILER'' ''gcc'',
           ''-DCMAKE_CXX_COMPILER='' @ compiler h ''CXX_COMPILER'' ''g++'',
           ''-DCMAKE_BUILD_TYPE='' @ cfg_name self]"
    unfolding generate_args_posix [OF False]
    by (auto split: prod.splits sum.splits)
  show ?thesis
    unfolding c using False by (simp add: flag_key_norm)
qed

lemma count_list_distinct: "distinct xs \<Longrightarrow> count_list xs y \<le> 1"
  by (induction xs) (auto simp: count_list_0_iff)

lemma count_list_filter: "P y \<Longrightarrow> count_list (filter P xs) y = count_list xs y"
  by (induction xs) auto

lemma keys_distinct:
  assumes "configure_args w h self ext t = Some args"
  shows "distinct (filter (\<lambda>x. x \<noteq> Some ''USE_GPU'' \<and> x \<noteq> None) (map flag_key args))"
proof -
  from configure_args_SomeD [OF assms]
  obtain b c t' where g: "generate_args w h self ext t = (Inr (b, c), t')"
    and a: "args = c @ option_flags h self []"
    by blast
  show ?thesis
    unfolding a map_append keys_generate_args [OF g] keys_option_flags upper_cfg_name
    by (cases "debug self") simp_all
qed

lemma key_once:
  assumes "configure_args w h self ext t = Some args" and "k \<noteq> ''USE_GPU''"
  shows "length (flags_for k args) \<le> 1"
proof -
  let ?P = "\<lambda>x. x \<noteq> Some ''USE_GPU'' \<and> x \<noteq> None"
  have "count_list (map flag_key args) (Some k) = count_list (filter ?P (map flag_key args)) (Some k)"
    using assms(2) by (simp add: count_list_filter)
  also have "\<dots> \<le> 1"
    by (rule count_list_distinct [OF keys_distinct [OF assms(1)]])
  finally show ?thesis by (simp add: length_flags_for)
qed


lemma flags_for_append: "flags_for k (xs @ ys) = flags_for k xs @ flags_for k ys"
  by (simp add: flags_for_def)

lemma gpu_generate_args:
  assumes "generate_args w h self ext t = (Inr (b, c), t')"
  shows "flags_for ''USE_GPU'' c = [''-DUSE_GPU:STR=No'']"
proof (cases "platform_system h = ''Windows''")
  case True
  with assms show ?thesis
    unfolding generate_args_windows [OF True]
    by (cases "debug self") (auto simp: flags_for_def flag_key_norm upper_cfg_name)
next
  case False
  with assms show ?thesis
    unfolding generate_args_posix [OF False]
    by (auto simp: flags_for_def flag_key_norm split: prod.splits sum.splits)
qed

lemma gpu_option_flags:
  "flags_for ''USE_GPU'' (option_flags h self []) =
     (case getenv h ''USE_GPU'' of
        Some v \<Rightarrow> if v \<noteq> [] then [''-DUSE_GPU:STR='' @ v] else []
      | None \<Rightarrow> [])"
  by (simp add: option_flags_def Let_def flags_for_def flag_key_norm split: option.splits)

text \<open>Unfolding the model on concrete inputs.\<close>

lemmas eval_defs =
  configure_args_def generate_args_def option_flags_def resolve_opt_flags_def get_n_cpus_def
  check_output_def probe_command_def strip_def is_space_def decode_utf8_def cfg_name_def
  getenv_def getenv_default_def truthy_def Let_def some_host_def some_build_def
  qulacs_core_def upper_def upper_char_def

lemma configure_args_gpu_example:
  "configure_args good_world (some_host ''Linux'' [(''USE_GPU'', ''Yes'')])
     (some_build False None) qulacs_core [] = Some gpu_example_args"
  by (simp add: eval_defs good_world_def gpu_example_args_def)

section \<open>Configuration keys\<close>

text \<open>
  C1. The claim: the configure arguments never hold the same configuration key twice with
  conflicting values, and with the \<^verbatim>\<open>USE_GPU\<close> selector set they hold at most one flag for
  that key. The script puts the default \<^verbatim>\<open>-DUSE_GPU:STR=No\<close> first and appends the flag
  of the selector after it, so on the Linux host with \<^verbatim>\<open>USE_GPU=Yes\<close> the arguments hold
  two flags for \<^verbatim>\<open>USE_GPU\<close>, with the values \<^verbatim>\<open>No\<close> and \<^verbatim>\<open>Yes\<close>.
\<close>

theorem use_gpu_flag_twice_counterexample:
  "configure_args good_world (some_host ''Linux'' [(''USE_GPU'', ''Yes'')])
     (some_build False None) qulacs_core [] = Some gpu_example_args
   \<and> \<not> conflict_free gpu_example_args
   \<and> flags_for ''USE_GPU'' gpu_example_args = [''-DUSE_GPU:STR=No'', ''-DUSE_GPU:STR=Yes'']"
proof -
  have "\<not> conflict_free gpu_example_args"
    by (simp add: conflict_free_def gpu_example_args_def flag_key_def)
  moreover have
    "flags_for ''USE_GPU'' gpu_example_args = [''-DUSE_GPU:STR=No'', ''-DUSE_GPU:STR=Yes'']"
    by (simp add: flags_for_def gpu_example_args_def flag_key_def)
  ultimately show ?thesis
    using configure_args_gpu_example by simp
qed

text \<open>
  C1, as amended: whenever configure arguments are produced, every configuration key other
  than \<^verbatim>\<open>USE_GPU\<close> is defined at most once, and the flags for \<^verbatim>\<open>USE_GPU\<close> are the default
  \<^verbatim>\<open>-DUSE_GPU:STR=No\<close> followed, when the selector is set to a non-empty value, by one flag
  that carries that value.
\<close>

theorem configure_key_once_except_use_gpu:
  assumes "configure_args w h self ext t = Some args" and "k \<noteq> ''USE_GPU''"
  shows "length (flags_for k args) \<le> 1
     \<and> flags_for ''USE_GPU'' args =
         ''-DUSE_GPU:STR=No'' #
           (case getenv h ''USE_GPU'' of
              Some v \<Rightarrow> if v \<noteq> [] then [''-DUSE_GPU:STR='' @ v] else []
            | None \<Rightarrow> [])"
proof -
  from configure_args_SomeD [OF assms(1)]
  obtain b c t' where g: "generate_args w h self ext t = (Inr (b, c), t')"
    and a: "args = c @ option_flags h self []"
    by blast
  have "length (flags_for k args) \<le> 1"
    by (rule key_once [OF assms])
  moreover have "flags_for ''USE_GPU'' args =
      [''-DUSE_GPU:STR=No''] @ flags_for ''USE_GPU'' (option_flags h self [])"
    unfolding a flags_for_append gpu_generate_args [OF g] ..
  ultimately show ?thesis
    by (simp add: gpu_option_flags)
qed

theorem configure_key_once_except_use_gpu_witness:
  "configure_args good_world (some_host ''Linux'' [(''USE_GPU'', ''Yes'')])
     (some_build False None) qulacs_core [] = Some gpu_example_args
   \<and> ''CMAKE_C_COMPILER'' \<noteq> ''USE_GPU''
   \<and> length (flags_for ''CMAKE_C_COMPILER'' gpu_example_args) \<le> 1
   \<and> flags_for ''USE_GPU'' gpu_example_args = [''-DUSE_GPU:STR=No'', ''-DUSE_GPU:STR=Yes'']"
  using configure_key_once_except_use_gpu
          [OF configure_args_gpu_example, of "''CMAKE_C_COMPILER''"]
        configure_args_gpu_example
  by (simp add: getenv_def some_host_def)

lemma opt_generate_args:
  assumes "generate_args w h self ext t = (Inr (b, c), t')"
  shows "flags_for ''OPT_FLAGS'' c = []"
proof (cases "platform_system h = ''Windows''")
  case True
  with assms show ?thesis
    unfolding generate_args_windows [OF True]
    by (cases "debug self") (auto simp: flags_for_def flag_key_norm upper_cfg_name)
next
  case False
  with assms show ?thesis
    unfolding generate_args_posix [OF False]
    by (auto simp: flags_for_def flag_key_norm split: prod.splits sum.splits)
qed

lemma opt_option_flags:
  "flags_for ''OPT_FLAGS'' (option_flags h self []) =
     (case resolve_opt_flags h self of
        Some v \<Rightarrow> if v \<noteq> [] then [''-DOPT_FLAGS='' @ v] else []
      | None \<Rightarrow> [])"
  by (simp add: option_flags_def Let_def flags_for_def flag_key_norm split: option.splits)

lemma opt_configure_args:
  assumes "configure_args w h self ext t = Some args"
  shows "flags_for ''OPT_FLAGS'' args =
     (case resolve_opt_flags h self of
        Some v \<Rightarrow> if v \<noteq> [] then [''-DOPT_FLAGS='' @ v] else []
      | None \<Rightarrow> [])"
proof -
  from configure_args_SomeD [OF assms]
  obtain b c t' where g: "generate_args w h self ext t = (Inr (b, c), t')"
    and a: "args = c @ option_flags h self []"
    by blast
  show ?thesis
    unfolding a flags_for_append opt_generate_args [OF g] opt_option_flags by simp
qed

lemma configure_args_empty_override_example:
  "configure_args good_world (some_host ''Linux'' [(''QULACS_OPT_FLAGS'', ''-O3'')])
     (some_build False (Some '''')) qulacs_core [] = Some plain_example_args"
  by (simp add: eval_defs good_world_def plain_example_args_def)

lemma configure_args_override_example:
  "configure_args good_world (some_host ''Linux'' [(''QULACS_OPT_FLAGS'', ''-O3'')])
     (some_build False (Some ''-O2'')) qulacs_core [] =
   Some (plain_example_args @ [''-DOPT_FLAGS=-O2''])"
  by (simp add: eval_defs good_world_def plain_example_args_def)

lemma configure_args_plain_example:
  "configure_args good_world (some_host ''Linux'' []) (some_build False None) qulacs_core [] =
   Some plain_example_args"
  by (simp add: eval_defs good_world_def plain_example_args_def)

text \<open>
  C4. The claim: whenever both the \<^verbatim>\<open>--opt-flags\<close> value and \<^verbatim>\<open>QULACS_OPT_FLAGS\<close> are
  present, exactly one optimization flag is emitted, with the explicit value. With the
  explicit value present and empty and \<^verbatim>\<open>QULACS_OPT_FLAGS=-O3\<close>, no optimization flag is
  emitted.
\<close>

theorem empty_override_no_flag_counterexample:
  "opt_flags (some_build False (Some '''')) = Some ''''
   \<and> getenv (some_host ''Linux'' [(''QULACS_OPT_FLAGS'', ''-O3'')]) ''QULACS_OPT_FLAGS'' = Some ''-O3''
   \<and> configure_args good_world (some_host ''Linux'' [(''QULACS_OPT_FLAGS'', ''-O3'')])
        (some_build False (Some '''')) qulacs_core [] = Some plain_example_args
   \<and> flags_for ''OPT_FLAGS'' plain_example_args = []"
proof -
  have "flags_for ''OPT_FLAGS'' plain_example_args = []"
    by (simp add: flags_for_def plain_example_args_def flag_key_def)
  then show ?thesis
    using configure_args_empty_override_example
    by (simp add: some_build_def getenv_def some_host_def)
qed

text \<open>
  C4, as amended: when the explicit \<^verbatim>\<open>--opt-flags\<close> value is present and not empty and
  \<^verbatim>\<open>QULACS_OPT_FLAGS\<close> is present too, exactly one optimization flag is emitted and it
  carries the explicit value; when neither is present, no optimization flag is emitted.
\<close>

theorem opt_flag_explicit_wins:
  assumes "configure_args w h self ext t = Some args"
  shows "(opt_flags self = Some v \<and> v \<noteq> [] \<and> getenv h ''QULACS_OPT_FLAGS'' = Some e
            \<longrightarrow> flags_for ''OPT_FLAGS'' args = [''-DOPT_FLAGS='' @ v])
       \<and> (opt_flags self = None \<and> getenv h ''QULACS_OPT_FLAGS'' = None
            \<longrightarrow> flags_for ''OPT_FLAGS'' args = [])"
  unfolding opt_configure_args [OF assms]
  by (simp add: resolve_opt_flags_def truthy_def)

theorem opt_flag_explicit_wins_witness:
  "configure_args good_world (some_host ''Linux'' [(''QULACS_OPT_FLAGS'', ''-O3'')])
     (some_build False (Some ''-O2'')) qulacs_core [] =
     Some (plain_example_args @ [''-DOPT_FLAGS=-O2''])
   \<and> opt_flags (some_build False (Some ''-O2'')) = Some ''-O2''
   \<and> getenv (some_host ''Linux'' [(''QULACS_OPT_FLAGS'', ''-O3'')]) ''QULACS_OPT_FLAGS'' = Some ''-O3''
   \<and> flags_for ''OPT_FLAGS'' (plain_example_args @ [''-DOPT_FLAGS=-O2'']) = [''-DOPT_FLAGS=-O2'']
   \<and> configure_args good_world (some_host ''Linux'' []) (some_build False None) qulacs_core [] =
     Some plain_example_args
   \<and> opt_flags (some_build False None) = None
   \<and> getenv (some_host ''Linux'' []) ''QULACS_OPT_FLAGS'' = None
   \<and> flags_for ''OPT_FLAGS'' plain_example_args = []"
  using opt_flag_explicit_wins [OF configure_args_override_example, of "''-O2''" "''-O3''"]
        opt_flag_explicit_wins [OF configure_args_plain_example]
        configure_args_override_example configure_args_plain_example
  by (simp add: some_build_def getenv_def some_host_def)

text \<open>
  C10. When the explicit \<^verbatim>\<open>--opt-flags\<close> value is present and empty, no optimization flag
  is emitted, whatever \<^verbatim>\<open>QULACS_OPT_FLAGS\<close> holds: the resolved value is the empty explicit
  one, and the environment is not consulted.
\<close>

theorem empty_override_blocks_environment:
  assumes "configure_args w h self ext t = Some args" and "opt_flags self = Some []"
  shows "flags_for ''OPT_FLAGS'' args = [] \<and> resolve_opt_flags h self = Some []"
  unfolding opt_configure_args [OF assms(1)]
  using assms(2) by (simp add: resolve_opt_flags_def)

theorem empty_override_blocks_environment_witness:
  "configure_args good_world (some_host ''Linux'' [(''QULACS_OPT_FLAGS'', ''-O3'')])
     (some_build False (Some '''')) qulacs_core [] = Some plain_example_args
   \<and> opt_flags (some_build False (Some '''')) = Some []
   \<and> flags_for ''OPT_FLAGS'' plain_example_args = []
   \<and> resolve_opt_flags (some_host ''Linux'' [(''QULACS_OPT_FLAGS'', ''-O3'')])
        (some_build False (Some '''')) = Some []"
  using empty_override_blocks_environment [OF configure_args_empty_override_example]
        configure_args_empty_override_example
  by (simp add: some_build_def)

text \<open>The only arguments that are not \<^verbatim>\<open>-D\<close> definitions are those of the architecture flag.\<close>

lemma keyless_option_flags: "filter (\<lambda>a. flag_key a = None) (option_flags h self []) = []"
  by (simp add: option_flags_def Let_def flag_key_norm split: option.splits)

lemma keyless_generate_args:
  assumes "generate_args w h self ext t = (Inr (b, c), t')"
  shows "filter (\<lambda>a. flag_key a = None) c =
     (if platform_system h = ''Windows'' \<and> sys_maxsize h > 2 ^ 32 then [''-A'', ''x64''] else [])"
proof (cases "platform_system h = ''Windows''")
  case True
  with assms show ?thesis
    unfolding generate_args_windows [OF True]
    by (cases "debug self") (auto simp: flag_key_norm upper_cfg_name)
next
  case False
  with assms show ?thesis
    unfolding generate_args_posix [OF False]
    by (auto simp: flag_key_norm split: prod.splits sum.splits)
qed

lemma keyless_configure_args:
  assumes "configure_args w h self ext t = Some args"
  shows "filter (\<lambda>a. flag_key a = None) args =
     (if platform_system h = ''Windows'' \<and> sys_maxsize h > 2 ^ 32 then [''-A'', ''x64''] else [])"
proof -
  from configure_args_SomeD [OF assms]
  obtain b c t' where g: "generate_args w h self ext t = (Inr (b, c), t')"
    and a: "args = c @ option_flags h self []"
    by blast
  show ?thesis
    unfolding a filter_append keyless_generate_args [OF g] keyless_option_flags by simp
qed

lemma count_keyless:
  assumes "flag_key x = None"
  shows "count_list args x = count_list (filter (\<lambda>a. flag_key a = None) args) x"
  using assms by (simp add: count_list_filter)

lemma configure_args_windows:
  assumes "platform_system h = ''Windows''"
  shows "\<exists>args. configure_args w h self ext t = Some args"
  unfolding configure_args_def generate_args_windows [OF assms] by simp

lemma configure_args_windows_example:
  "configure_args good_world (some_host ''Windows'' []) (some_build True None) qulacs_core [] =
   Some windows_example_args"
  by (simp add: eval_defs windows_example_args_def)

text \<open>
  C8. On a Windows host with \<^verbatim>\<open>sys.maxsize > 2 ** 32\<close> configure arguments are always
  produced, and \<^verbatim>\<open>-A\<close> and \<^verbatim>\<open>x64\<close> each occur in them exactly once; on any other host
  neither occurs in the configure arguments, whatever \<^verbatim>\<open>sys.maxsize\<close> is.
\<close>

theorem architecture_flag_once_on_windows_only:
  "(platform_system h = ''Windows'' \<and> sys_maxsize h > 2 ^ 32 \<longrightarrow>
      (\<exists>args. configure_args w h self ext t = Some args
         \<and> count_list args ''-A'' = 1 \<and> count_list args ''x64'' = 1))
   \<and> (platform_system h \<noteq> ''Windows'' \<longrightarrow>
        (\<forall>args. configure_args w h self ext t = Some args \<longrightarrow>
           ''-A'' \<notin> set args \<and> ''x64'' \<notin> set args))"
proof (intro conjI impI allI)
  assume win: "platform_system h = ''Windows'' \<and> sys_maxsize h > 2 ^ 32"
  then obtain args where a: "configure_args w h self ext t = Some args"
    using configure_args_windows by blast
  have "count_list args ''-A'' = 1" and "count_list args ''x64'' = 1"
    using win
    by (simp_all add: count_keyless [of _ args] flag_key_norm keyless_configure_args [OF a])
  with a show "\<exists>args. configure_args w h self ext t = Some args
         \<and> count_list args ''-A'' = 1 \<and> count_list args ''x64'' = 1"
    by blast
next
  fix args
  assume nw: "platform_system h \<noteq> ''Windows''"
    and a: "configure_args w h self ext t = Some args"
  have "count_list args ''-A'' = 0"
    using nw by (simp add: count_keyless [of _ args] flag_key_norm keyless_configure_args [OF a])
  then show "''-A'' \<notin> set args" by (simp add: count_list_0_iff)
next
  fix args
  assume nw: "platform_system h \<noteq> ''Windows''"
    and a: "configure_args w h self ext t = Some args"
  have "count_list args ''x64'' = 0"
    using nw by (simp add: count_keyless [of _ args] flag_key_norm keyless_configure_args [OF a])
  then show "''x64'' \<notin> set args" by (simp add: count_list_0_iff)
qed

theorem architecture_flag_once_on_windows_only_witness:
  "platform_system (some_host ''Windows'' []) = ''Windows''
   \<and> sys_maxsize (some_host ''Windows'' []) > 2 ^ 32
   \<and> configure_args good_world (some_host ''Windows'' []) (some_build True None) qulacs_core [] =
       Some windows_example_args
   \<and> count_list windows_example_args ''-A'' = 1
   \<and> count_list windows_example_args ''x64'' = 1
   \<and> platform_system (some_host ''Linux'' []) \<noteq> ''Windows''
   \<and> configure_args good_world (some_host ''Linux'' []) (some_build False None) qulacs_core [] =
       Some plain_example_args
   \<and> ''-A'' \<notin> set plain_example_args \<and> ''x64'' \<notin> set plain_example_args"
  using architecture_flag_once_on_windows_only
          [of "some_host ''Windows'' []" good_world "some_build True None" qulacs_core "[]"]
        architecture_flag_once_on_windows_only
          [of "some_host ''Linux'' []" good_world "some_build False None" qulacs_core "[]"]
        configure_args_windows_example configure_args_plain_example
  by (simp add: some_host_def)




text \<open>
  C5. On a host other than Windows, when the probe returns the absent value \<^verbatim>\<open>""\<close>,
  argument generation returns and the build arguments end with the token \<^verbatim>\<open>-j\<close> alone,
  which carries no number.
\<close>

theorem absent_cpu_count_gives_bare_j:
  assumes "platform_system h \<noteq> ''Windows''"
    and "get_n_cpus w (platform_system h) t = (Inr [], t')"
  shows "\<exists>c. generate_args w h self ext t =
           (Inr ([''--config'', cfg_name self, ''--'', ''-j''], c), t')"
  unfolding generate_args_posix [OF assms(1)] assms(2) by simp

lemma get_n_cpus_denied_example:
  "get_n_cpus denying_world ''Linux'' [] = (Inr [], [Check_output [''nproc'']])"
  by (simp add: get_n_cpus_def check_output_def probe_command_def denying_world_def)

lemma generate_args_denied_example:
  "generate_args denying_world (some_host ''Linux'' []) (some_build False None) qulacs_core [] =
   (Inr ([''--config'', ''Release'', ''--'', ''-j''], plain_example_args),
    [Check_output [''nproc'']])"
  by (simp add: eval_defs denying_world_def plain_example_args_def)

theorem absent_cpu_count_gives_bare_j_witness:
  "platform_system (some_host ''Linux'' []) \<noteq> ''Windows''
   \<and> get_n_cpus denying_world (platform_system (some_host ''Linux'' [])) [] =
       (Inr [], [Check_output [''nproc'']])
   \<and> generate_args denying_world (some_host ''Linux'' []) (some_build False None) qulacs_core [] =
       (Inr ([''--config'', cfg_name (some_build False None), ''--'', ''-j''], plain_example_args),
        [Check_output [''nproc'']])"
  using absent_cpu_count_gives_bare_j
          [of "some_host ''Linux'' []" denying_world "[]" "[Check_output [''nproc'']]"
              "some_build False None" qulacs_core]
        get_n_cpus_denied_example generate_args_denied_example
  by (simp add: some_host_def cfg_name_def some_build_def)

section \<open>The probe\<close>

lemma digits_utf8_ok: "list_all is_digit s \<Longrightarrow> utf8_ok (map of_char s)"
  by (induction s) (auto simp: is_digit_def)

lemma get_n_cpus_denied:
  assumes "proc w t (Check_output (probe_command p)) = Spawn_failed PermissionDenied"
  shows "get_n_cpus w p t = (Inr [], t @ [Check_output (probe_command p)])"
  using assms by (simp add: get_n_cpus_def check_output_def)

lemma get_n_cpus_success:
  assumes "proc w t (Check_output (probe_command p)) = Exited 0 out"
    and "utf8_ok (map of_char (strip out))"
  shows "get_n_cpus w p t = (Inr (strip out), t @ [Check_output (probe_command p)])"
  using assms by (simp add: get_n_cpus_def check_output_def decode_utf8_def)

lemma get_n_cpus_nonzero:
  assumes "proc w t (Check_output (probe_command p)) = Exited c out" and "c \<noteq> 0"
  shows "get_n_cpus w p t =
     (Inl (CalledProcessError c (probe_command p)), t @ [Check_output (probe_command p)])"
  using assms by (simp add: get_n_cpus_def check_output_def)

lemma get_n_cpus_spawn_failed:
  assumes "proc w t (Check_output (probe_command p)) = Spawn_failed oe"
    and "oe \<noteq> PermissionDenied"
  shows "get_n_cpus w p t = (Inl (OSError oe), t @ [Check_output (probe_command p)])"
  using assms by (simp add: get_n_cpus_def check_output_def)

text \<open>
  C2. The claim: for every outcome of the CPU-count utility the probe returns a positive
  integer or the absent value and never raises. When \<^verbatim>\<open>nproc\<close> exits with 1 on Linux,
  \<^verbatim>\<open>check_output\<close> raises \<^verbatim>\<open>CalledProcessError\<close>, for which \<^verbatim>\<open>_get_n_cpus\<close> has no
  handler.
\<close>

theorem probe_raises_on_nonzero_exit_counterexample:
  "get_n_cpus nonzero_world ''Linux'' [] =
     (Inl (CalledProcessError 1 [''nproc'']), [Check_output [''nproc'']])
   \<and> \<not> probe_ok (fst (get_n_cpus nonzero_world ''Linux'' []))"
  by (simp add: get_n_cpus_def check_output_def probe_command_def nonzero_world_def probe_ok_def)

text \<open>
  C2, as amended: for every platform name, when the invocation is denied
  (\<^verbatim>\<open>PermissionError\<close>) the probe returns the absent value \<^verbatim>\<open>""\<close>; when the utility exits
  with 0 and prints a positive integer, surrounded by whitespace or not, the probe returns
  that integer; when the utility exits with another code, \<^verbatim>\<open>CalledProcessError\<close> with that
  code reaches the caller. In each case the invocation is the only event.
\<close>

theorem probe_result_by_outcome:
  "(proc w t (Check_output (probe_command p)) = Spawn_failed PermissionDenied \<longrightarrow>
      get_n_cpus w p t = (Inr [], t @ [Check_output (probe_command p)]))
   \<and> (proc w t (Check_output (probe_command p)) = Exited 0 out \<and> is_pos_int (strip out) \<longrightarrow>
        get_n_cpus w p t = (Inr (strip out), t @ [Check_output (probe_command p)])
        \<and> probe_ok (fst (get_n_cpus w p t)))
   \<and> (proc w t (Check_output (probe_command p)) = Exited c out \<and> c \<noteq> 0 \<longrightarrow>
        get_n_cpus w p t =
          (Inl (CalledProcessError c (probe_command p)), t @ [Check_output (probe_command p)]))"
proof (intro conjI impI)
  assume "proc w t (Check_output (probe_command p)) = Spawn_failed PermissionDenied"
  then show "get_n_cpus w p t = (Inr [], t @ [Check_output (probe_command p)])"
    by (rule get_n_cpus_denied)
next
  assume a: "proc w t (Check_output (probe_command p)) = Exited 0 out \<and> is_pos_int (strip out)"
  then have "utf8_ok (map of_char (strip out))"
    by (simp add: is_pos_int_def digits_utf8_ok)
  with a show g: "get_n_cpus w p t = (Inr (strip out), t @ [Check_output (probe_command p)])"
    by (simp add: get_n_cpus_success)
  from a show "probe_ok (fst (get_n_cpus w p t))"
    unfolding g by (simp add: probe_ok_def)
next
  assume "proc w t (Check_output (probe_command p)) = Exited c out \<and> c \<noteq> 0"
  then show "get_n_cpus w p t =
      (Inl (CalledProcessError c (probe_command p)), t @ [Check_output (probe_command p)])"
    by (simp add: get_n_cpus_nonzero)
qed

theorem probe_result_by_outcome_witness:
  "proc denying_world [] (Check_output (probe_command ''FreeBSD'')) = Spawn_failed PermissionDenied
   \<and> get_n_cpus denying_world ''FreeBSD'' [] = (Inr [], [Check_output ['''']])
   \<and> proc good_world [] (Check_output (probe_command ''Linux'')) = Exited 0 ''8\<newline>''
   \<and> is_pos_int (strip ''8\<newline>'')
   \<and> get_n_cpus good_world ''Linux'' [] = (Inr ''8'', [Check_output [''nproc'']])
   \<and> probe_ok (fst (get_n_cpus good_world ''Linux'' []))
   \<and> proc nonzero_world [] (Check_output (probe_command ''Darwin'')) = Exited 1 []
   \<and> get_n_cpus nonzero_world ''Darwin'' [] =
       (Inl (CalledProcessError 1 [''sysctl'', ''-n'', ''hw.ncpu'']),
        [Check_output [''sysctl'', ''-n'', ''hw.ncpu'']])"
  using probe_result_by_outcome [of denying_world "[]" "''FreeBSD''"]
        probe_result_by_outcome [of good_world "[]" "''Linux''" "''8\<newline>''"]
        probe_result_by_outcome [of nonzero_world "[]" "''Darwin''" "[]" 1]
  by (simp add: denying_world_def good_world_def nonzero_world_def probe_command_def
        strip_def is_space_def is_pos_int_def is_digit_def probe_ok_def)

section \<open>Compiler selection\<close>

text \<open>
  The test \<^verbatim>\<open>gcc is None or gxx is None\<close> never holds, since both lookups have a default:
  argument generation never raises \<^verbatim>\<open>RuntimeError\<close>.
\<close>

lemma get_n_cpus_no_RuntimeError: "get_n_cpus w p t \<noteq> (Inl (RuntimeError m), t')"
  by (auto simp: get_n_cpus_def check_output_def decode_utf8_def Let_def
           split: outcome.splits if_splits)

lemma generate_args_no_RuntimeError: "generate_args w h self ext t \<noteq> (Inl (RuntimeError m), t')"
proof (cases "platform_system h = ''Windows''")
  case True
  then show ?thesis by (simp add: generate_args_windows)
next
  case False
  show ?thesis
    unfolding generate_args_posix [OF False]
    using get_n_cpus_no_RuntimeError [of w "platform_system h" t m]
    by (auto split: prod.splits sum.splits)
qed

text \<open>
  C3. The claim: on a host other than Windows an empty compiler value makes argument
  generation raise before any build subprocess is spawned, and an empty override is never
  passed on. On the Linux host with \<^verbatim>\<open>C_COMPILER\<close> set to the empty string, argument
  generation returns, the configure arguments hold \<^verbatim>\<open>-DCMAKE_C_COMPILER=\<close> with no value,
  and \<open>build_extension\<close> runs the configure step with them and then the build step.
\<close>

theorem empty_compiler_override_passed_on:
  "configure_args good_world (some_host ''Linux'' [(''C_COMPILER'', '''')])
     (some_build False None) qulacs_core [] = Some empty_compiler_example_args
   \<and> ''-DCMAKE_C_COMPILER='' \<in> set empty_compiler_example_args
   \<and> fst (build_extension good_world (some_host ''Linux'' [(''C_COMPILER'', '''')])
            (some_build False None) qulacs_core []) = Inr ()
   \<and> filter is_check_call
        (snd (build_extension good_world (some_host ''Linux'' [(''C_COMPILER'', '''')])
               (some_build False None) qulacs_core [])) =
      [Check_call (''cmake'' # ''/w'' # empty_compiler_example_args) ''/w/build''
         (Some (child_env (some_host ''Linux'' [(''C_COMPILER'', '''')]) (some_build False None))),
       Check_call [''cmake'', ''--build'', ''.'', ''--target'', ''python'',
                   ''--config'', ''Release'', ''--'', ''-j8''] ''/w/build'' None]"
  by (simp add: eval_defs good_world_def empty_compiler_example_args_def build_extension_def
        make_build_dirs_def os_path_exists_def os_makedirs_def check_call_def
        configure_argv_def build_argv_def child_env_def)

section \<open>Traces\<close>

lemma get_n_cpus_trace:
  assumes "get_n_cpus w p t = (r, t')"
  shows "t' = t @ [Check_output (probe_command p)]"
  using assms
  by (auto simp: get_n_cpus_def check_output_def Let_def
           split: outcome.splits if_splits sum.splits)

lemma generate_args_trace:
  assumes "generate_args w h self ext t = (r, t')"
  shows "\<exists>es. t' = t @ es \<and> filter is_check_call es = []"
proof (cases "platform_system h = ''Windows''")
  case True
  with assms show ?thesis by (simp add: generate_args_windows)
next
  case False
  obtain r0 u where g: "get_n_cpus w (platform_system h) t = (r0, u)"
    by (cases "get_n_cpus w (platform_system h) t")
  from assms have "t' = u"
    unfolding generate_args_posix [OF False] g by (auto split: sum.splits prod.splits)
  with get_n_cpus_trace [OF g] show ?thesis by simp
qed

lemma make_build_dirs_trace:
  assumes "make_build_dirs w h self t = (r, t')"
  shows "\<exists>es. t' = t @ es \<and> filter is_check_call es = []"
  using assms
  by (auto simp: make_build_dirs_def os_path_exists_def os_makedirs_def Let_def
           split: option.splits if_splits)

lemma build_extensions_append:
  assumes "build_extensions w h self pre t0 = (Inr (), t)"
  shows "build_extensions w h self (pre @ rest) t0 = build_extensions w h self rest t"
  using assms
proof (induction pre arbitrary: t0)
  case Nil
  then show ?case by simp
next
  case (Cons e pre)
  then show ?case by (auto split: prod.splits sum.splits)
qed

lemma build_extension_configure_fails:
  assumes "generate_args w h self ext t = (Inr (build_args, cmake_args0), t1)"
    and "make_build_dirs w h self t1 = (Inr build_dir, t2)"
    and "proc w t2 (configure_event h self ext cmake_args0 build_dir) = Exited c out"
    and "c \<noteq> 0"
  shows "build_extension w h self ext t =
     (Inl (CalledProcessError c (configure_argv ext (option_flags h self cmake_args0))),
      t2 @ [configure_event h self ext cmake_args0 build_dir])"
  using assms
  by (simp add: build_extension_def check_call_def Let_def configure_event_def)

text \<open>
  The \<^verbatim>\<open>check_call\<close> events of \<open>build_extension\<close>: none, or the configure step alone, or
  the configure step and then the build step; the configure step is always given the
  arguments \<open>configure_args\<close>.
\<close>

lemma check_call_trace:
  "\<exists>r. check_call w argv cwd env t = (r, t @ [Check_call argv cwd env])"
  by (simp add: check_call_def Let_def split: outcome.splits)

lemma build_extension_check_calls:
  "\<exists>r es. build_extension w h self ext t = (r, t @ es) \<and>
     (filter is_check_call es = [] \<or>
      (\<exists>b c0 t1 bd. generate_args w h self ext t = (Inr (b, c0), t1) \<and>
         configure_args w h self ext t = Some (option_flags h self c0) \<and>
         (filter is_check_call es = [configure_event h self ext c0 bd] \<or>
          filter is_check_call es = [configure_event h self ext c0 bd, build_event b bd])))"
proof (cases "generate_args w h self ext t")
  case (Pair r1 t1)
  from generate_args_trace [OF Pair]
  obtain es1 where e1: "t1 = t @ es1" and n1: "filter is_check_call es1 = []" by blast
  show ?thesis
  proof (cases r1)
    case (Inl e)
    with Pair e1 n1 show ?thesis by (auto simp: build_extension_def)
  next
    case (Inr bc)
    obtain b c0 where bc: "bc = (b, c0)" by (cases bc)
    have g: "generate_args w h self ext t = (Inr (b, c0), t1)"
      using Pair Inr bc by simp
    have ca: "configure_args w h self ext t = Some (option_flags h self c0)"
      by (simp add: configure_args_def g)
    obtain r2 t2 where m: "make_build_dirs w h self t1 = (r2, t2)"
      by (cases "make_build_dirs w h self t1")
    from make_build_dirs_trace [OF m]
    obtain es2 where e2: "t2 = t1 @ es2" and n2: "filter is_check_call es2 = []" by blast
    show ?thesis
    proof (cases r2)
      case (Inl e)
      with g m e1 e2 n1 n2 show ?thesis by (auto simp: build_extension_def)
    next
      case (Inr bd)
      let ?cev = "configure_event h self ext c0 bd"
      obtain r3 where c3: "check_call w (configure_argv ext (option_flags h self c0)) bd
          (Some (child_env h self)) t2 = (r3, t2 @ [?cev])"
        using check_call_trace [of w _ bd _ t2] unfolding configure_event_def by blast
      show ?thesis
      proof (cases r3)
        case (Inl e)
        have "build_extension w h self ext t = (Inl e, t @ (es1 @ es2 @ [?cev]))"
          using g m Inr c3 Inl e1 e2 by (simp add: build_extension_def Let_def)
        moreover have "filter is_check_call (es1 @ es2 @ [?cev]) = [?cev]"
          using n1 n2 by (simp add: configure_event_def)
        ultimately show ?thesis using g ca by blast
      next
        case (Inr u)
        obtain r4 where c4: "check_call w (build_argv b) bd None (t2 @ [?cev]) =
            (r4, (t2 @ [?cev]) @ [build_event b bd])"
          using check_call_trace [of w _ bd None "t2 @ [?cev]"] unfolding build_event_def by blast
        have "build_extension w h self ext t = (r4, t @ (es1 @ es2 @ [?cev, build_event b bd]))"
          using g m \<open>r2 = Inr bd\<close> c3 Inr c4 e1 e2 by (simp add: build_extension_def Let_def)
        moreover have "filter is_check_call (es1 @ es2 @ [?cev, build_event b bd]) =
            [?cev, build_event b bd]"
          using n1 n2 by (simp add: configure_event_def build_event_def)
        ultimately show ?thesis using g ca by blast
      qed
    qed
  qed
qed

text \<open>The run of the Linux host in the world whose configure step exits with 2.\<close>

lemma failing_run_version:
  "check_output failing_configure_world [''cmake'', ''--version''] [] =
   (Inr ''8\<newline>'', [Check_output [''cmake'', ''--version'']])"
  by (simp add: check_output_def failing_configure_world_def)

lemma failing_run_generate_args:
  "generate_args failing_configure_world (some_host ''Linux'' []) (some_build False None)
     qulacs_core [Check_output [''cmake'', ''--version'']] =
   (Inr ([''--config'', ''Release'', ''--'', ''-j8''], plain_example_args),
    [Check_output [''cmake'', ''--version''], Check_output [''nproc'']])"
  by (simp add: eval_defs failing_configure_world_def plain_example_args_def)

lemma failing_run_make_build_dirs:
  "make_build_dirs failing_configure_world (some_host ''Linux'' []) (some_build False None)
     [Check_output [''cmake'', ''--version''], Check_output [''nproc'']] =
   (Inr ''/w/build'',
    [Check_output [''cmake'', ''--version''], Check_output [''nproc''],
     Path_exists ''build/temp'', Makedirs ''build/temp'' False, Makedirs ''/w/build'' True])"
  by (simp add: make_build_dirs_def os_path_exists_def os_makedirs_def Let_def
        failing_configure_world_def some_host_def some_build_def)

lemma failing_run_configure:
  "proc failing_configure_world t
     (configure_event (some_host ''Linux'' []) (some_build False None) qulacs_core
        plain_example_args ''/w/build'') = Exited 2 []"
  by (simp add: failing_configure_world_def configure_event_def)

text \<open>
  C7. For a target of the run that is reached (the tool check and the targets before it
  succeeded) and whose arguments and directories are ready: if its configure step exits with
  a code other than 0, then \<open>build_extension\<close> raises \<^verbatim>\<open>CalledProcessError\<close> with that
  code, \<open>run\<close> ends with the same exception, the configure step is the last event and the
  only \<^verbatim>\<open>check_call\<close> made for the target, and its build step is not among the events.
\<close>

theorem configure_failure_stops_target:
  assumes "check_output w [''cmake'', ''--version''] t0 = (Inr out0, ta)"
    and "extensions self = pre @ ext # rest"
    and "build_extensions w h self pre ta = (Inr (), t)"
    and "generate_args w h self ext t = (Inr (build_args, cmake_args0), t1)"
    and "make_build_dirs w h self t1 = (Inr build_dir, t2)"
    and "proc w t2 (configure_event h self ext cmake_args0 build_dir) = Exited c out"
    and "c \<noteq> 0"
  shows "build_extension w h self ext t =
       (Inl (CalledProcessError c (configure_argv ext (option_flags h self cmake_args0))),
        t2 @ [configure_event h self ext cmake_args0 build_dir])
     \<and> run w h self t0 =
       (Inl (CalledProcessError c (configure_argv ext (option_flags h self cmake_args0))),
        t2 @ [configure_event h self ext cmake_args0 build_dir])
     \<and> filter is_check_call
         (drop (length t) (t2 @ [configure_event h self ext cmake_args0 build_dir])) =
       [configure_event h self ext cmake_args0 build_dir]
     \<and> build_event build_args build_dir \<notin>
         set (drop (length t) (t2 @ [configure_event h self ext cmake_args0 build_dir]))"
proof -
  let ?cev = "configure_event h self ext cmake_args0 build_dir"
  let ?err = "CalledProcessError c (configure_argv ext (option_flags h self cmake_args0))"
  have be: "build_extension w h self ext t = (Inl ?err, t2 @ [?cev])"
    by (rule build_extension_configure_fails [OF assms(4-7)])
  have "build_extensions w h self (extensions self) ta =
        build_extensions w h self (ext # rest) t"
    unfolding assms(2) by (rule build_extensions_append [OF assms(3)])
  also have "\<dots> = (Inl ?err, t2 @ [?cev])"
    by (simp add: be)
  finally have r: "run w h self t0 = (Inl ?err, t2 @ [?cev])"
    by (simp add: run_def assms(1))
  from generate_args_trace [OF assms(4)]
  obtain es1 where e1: "t1 = t @ es1" and n1: "filter is_check_call es1 = []" by blast
  from make_build_dirs_trace [OF assms(5)]
  obtain es2 where e2: "t2 = t1 @ es2" and n2: "filter is_check_call es2 = []" by blast
  have d: "drop (length t) (t2 @ [?cev]) = es1 @ es2 @ [?cev]"
    by (simp add: e1 e2)
  have f: "filter is_check_call (drop (length t) (t2 @ [?cev])) = [?cev]"
    unfolding d by (simp add: n1 n2 configure_event_def)
  have nb: "build_event build_args build_dir \<notin> set es" if "filter is_check_call es = []" for es
    using that by (auto simp: filter_empty_conv build_event_def)
  have "build_event build_args build_dir \<noteq> ?cev"
    by (simp add: build_event_def configure_event_def)
  with nb [OF n1] nb [OF n2]
  have nbs: "build_event build_args build_dir \<notin> set (drop (length t) (t2 @ [?cev]))"
    unfolding d by simp
  show ?thesis
    by (rule conjI [OF be conjI [OF r conjI [OF f nbs]]])
qed

theorem configure_failure_stops_target_witness:
  "check_output failing_configure_world [''cmake'', ''--version''] [] =
     (Inr ''8\<newline>'', [Check_output [''cmake'', ''--version'']])
   \<and> extensions (some_build False None) = [] @ qulacs_core # []
   \<and> build_extensions failing_configure_world (some_host ''Linux'' []) (some_build False None) []
       [Check_output [''cmake'', ''--version'']] = (Inr (), [Check_output [''cmake'', ''--version'']])
   \<and> proc failing_configure_world
       [Check_output [''cmake'', ''--version''], Check_output [''nproc''],
        Path_exists ''build/temp'', Makedirs ''build/temp'' False, Makedirs ''/w/build'' True]
       (configure_event (some_host ''Linux'' []) (some_build False None) qulacs_core
          plain_example_args ''/w/build'') = Exited 2 []
   \<and> (2::int) \<noteq> 0
   \<and> run failing_configure_world (some_host ''Linux'' []) (some_build False None) [] =
       (Inl (CalledProcessError 2 (''cmake'' # ''/w'' # plain_example_args)),
        [Check_output [''cmake'', ''--version''], Check_output [''nproc''],
         Path_exists ''build/temp'', Makedirs ''build/temp'' False, Makedirs ''/w/build'' True,
         configure_event (some_host ''Linux'' []) (some_build False None) qulacs_core
           plain_example_args ''/w/build''])"
proof -
  have o: "option_flags (some_host ''Linux'' []) (some_build False None) plain_example_args =
      plain_example_args"
    by (simp add: option_flags_def resolve_opt_flags_def getenv_def truthy_def some_host_def
          some_build_def Let_def)
  have two: "(2::int) \<noteq> 0" by simp
  have exts: "extensions (some_build False None) = [] @ qulacs_core # []"
    by (simp add: some_build_def)
  have pre: "build_extensions failing_configure_world (some_host ''Linux'' [])
      (some_build False None) [] [Check_output [''cmake'', ''--version'']] =
      (Inr (), [Check_output [''cmake'', ''--version'']])"
    by simp
  have sd: "sourcedir qulacs_core = ''/w''"
    by (simp add: qulacs_core_def)
  show ?thesis
    using configure_failure_stops_target
            [OF failing_run_version exts pre failing_run_generate_args
                failing_run_make_build_dirs failing_run_configure two]
          failing_run_version failing_run_configure exts pre
    by (simp add: o configure_argv_def sd)
qed

section \<open>The tool check\<close>

lemma sublist_append_left: "sublist x ys \<Longrightarrow> sublist x (zs @ ys)"
  unfolding sublist_def by (metis append.assoc)

lemma sublist_join: "x \<in> set xs \<Longrightarrow> sublist x (join sep xs)"
proof (induction sep xs rule: join.induct)
  case (1 sep)
  then show ?case by simp
next
  case (2 sep y)
  then show ?case by simp
next
  case (3 sep y z zs)
  show ?case
  proof (cases "x = y")
    case True
    then show ?thesis by simp
  next
    case False
    with 3 have "sublist x (join sep (z # zs))" by simp
    then have "sublist x ((y @ sep) @ join sep (z # zs))"
      by (rule sublist_append_left)
    then show ?thesis by simp
  qed
qed

text \<open>Whatever makes the tool check fail, the check is the only event of the run.\<close>

lemma run_check_fails_trace:
  assumes "check_output w [''cmake'', ''--version''] t = (Inl e, t')"
  shows "snd (run w h self t) = t' \<and> t' = t @ [Check_output [''cmake'', ''--version'']]
     \<and> (\<exists>e'. fst (run w h self t) = Inl e')"
  using assms
  by (auto simp: run_def check_output_def Let_def
           split: outcome.splits if_splits error.splits)

text \<open>
  C6. The claim: if the tool check fails, \<open>run\<close> raises one diagnostic that names every
  pending extension target, and no configure or build subprocess is invoked. The check
  also fails when \<^verbatim>\<open>cmake --version\<close> starts and exits with a code other than 0; the
  handler of \<open>run\<close> is for \<^verbatim>\<open>OSError\<close> only, so with two targets and a \<^verbatim>\<open>cmake\<close> that
  exits with 1 the exception that leaves \<open>run\<close> is the \<^verbatim>\<open>CalledProcessError\<close> of the
  check, which names neither target.
\<close>

theorem tool_check_nonzero_exit_counterexample:
  "run nonzero_world (some_host ''Linux'' []) two_target_build [] =
     (Inl (CalledProcessError 1 [''cmake'', ''--version'']),
      [Check_output [''cmake'', ''--version'']])
   \<and> \<not> names_every_target two_target_build (CalledProcessError 1 [''cmake'', ''--version''])"
  by (simp add: run_def check_output_def nonzero_world_def names_every_target_def
        error_texts_def two_target_build_def qulacs_core_def sublist_code)

text \<open>
  C6, as amended: if the tool check fails because \<^verbatim>\<open>cmake\<close> cannot be started (an
  \<^verbatim>\<open>OSError\<close>: not found, not permitted, or another one), \<open>run\<close> raises one
  \<^verbatim>\<open>RuntimeError\<close> whose message holds the name of every extension target; if it fails
  because \<^verbatim>\<open>cmake --version\<close> exits with a code other than 0, the
  \<^verbatim>\<open>CalledProcessError\<close> with that code leaves \<open>run\<close>. In both cases the tool check is
  the only event of the run: no configure step and no build step is invoked for any target.
\<close>

theorem tool_check_failure_stops_run:
  "(proc w t (Check_output [''cmake'', ''--version'']) = Spawn_failed oe \<longrightarrow>
      run w h self t =
        (Inl (RuntimeError (''CMake must be installed to build the following extensions: ''
                            @ join '', '' (map name (extensions self)))),
         t @ [Check_output [''cmake'', ''--version'']])
      \<and> names_every_target self
           (RuntimeError (''CMake must be installed to build the following extensions: ''
                          @ join '', '' (map name (extensions self))))
      \<and> filter is_check_call (drop (length t) (snd (run w h self t))) = [])
   \<and> (proc w t (Check_output [''cmake'', ''--version'']) = Exited c out \<and> c \<noteq> 0 \<longrightarrow>
        run w h self t =
          (Inl (CalledProcessError c [''cmake'', ''--version'']),
           t @ [Check_output [''cmake'', ''--version'']])
        \<and> filter is_check_call (drop (length t) (snd (run w h self t))) = [])"
proof (intro conjI impI)
  let ?msg = "''CMake must be installed to build the following extensions: ''
              @ join '', '' (map name (extensions self))"
  assume a: "proc w t (Check_output [''cmake'', ''--version'']) = Spawn_failed oe"
  then show r: "run w h self t =
      (Inl (RuntimeError ?msg), t @ [Check_output [''cmake'', ''--version'']])"
    by (simp add: run_def check_output_def)
  have "sublist (name e) ?msg" if "e \<in> set (extensions self)" for e
  proof -
    from that have "name e \<in> set (map name (extensions self))" by simp
    then have "sublist (name e) (join '', '' (map name (extensions self)))"
      by (rule sublist_join)
    then show ?thesis by (rule sublist_append_left)
  qed
  then show "names_every_target self (RuntimeError ?msg)"
    by (simp add: names_every_target_def error_texts_def list_all_iff)
  show "filter is_check_call (drop (length t) (snd (run w h self t))) = []"
    unfolding r by simp
next
  assume a: "proc w t (Check_output [''cmake'', ''--version'']) = Exited c out \<and> c \<noteq> 0"
  then show r: "run w h self t =
      (Inl (CalledProcessError c [''cmake'', ''--version'']),
       t @ [Check_output [''cmake'', ''--version'']])"
    by (simp add: run_def check_output_def)
  show "filter is_check_call (drop (length t) (snd (run w h self t))) = []"
    unfolding r by simp
qed

theorem tool_check_failure_stops_run_witness:
  "proc bare_world [] (Check_output [''cmake'', ''--version'']) = Spawn_failed FileNotFound
   \<and> run bare_world (some_host ''Linux'' []) two_target_build [] =
       (Inl (RuntimeError
          ''CMake must be installed to build the following extensions: qulacs_core, qulacs_extra''),
        [Check_output [''cmake'', ''--version'']])
   \<and> names_every_target two_target_build
       (RuntimeError
          ''CMake must be installed to build the following extensions: qulacs_core, qulacs_extra'')
   \<and> proc nonzero_world [] (Check_output [''cmake'', ''--version'']) = Exited 1 []
   \<and> (1::int) \<noteq> 0
   \<and> run nonzero_world (some_host ''Linux'' []) two_target_build [] =
       (Inl (CalledProcessError 1 [''cmake'', ''--version'']),
        [Check_output [''cmake'', ''--version'']])"
proof -
  have p: "proc bare_world [] (Check_output [''cmake'', ''--version'']) = Spawn_failed FileNotFound"
    by (simp add: bare_world_def)
  have q: "proc nonzero_world [] (Check_output [''cmake'', ''--version'']) = Exited 1 []"
    by (simp add: nonzero_world_def)
  have e: "map name (extensions two_target_build) = [''qulacs_core'', ''qulacs_extra'']"
    by (simp add: two_target_build_def qulacs_core_def)
  show ?thesis
    using tool_check_failure_stops_run
            [of bare_world "[]" FileNotFound "some_host ''Linux'' []" two_target_build]
          tool_check_failure_stops_run
            [of nonzero_world "[]" _ "some_host ''Linux'' []" two_target_build 1 "[]"]
          p q
    by (simp add: e)
qed

end
